theory Spec2Isabelle
  imports Main "HOL-Library.Word"
begin

unbundle bit_operations_syntax

section \<open>Bytes, native structures and the C library calls the sources use\<close>

text \<open>
  The address classes of sockpp are binary compatible with the native address
  structures: \<^verbatim>\<open>class inet6_address : public sockaddr_in6\<close> adds no member, and the
  constructors fill the object with \<^verbatim>\<open>memcpy\<close>. An object is therefore modelled as the
  list of its bytes, and a constructor as a function from the storage it is given (whose
  previous contents are indeterminate) and its arguments to the bytes of the new object.
\<close>

type_synonym byte = "8 word"
type_synonym bytes = "byte list"

text \<open>
  The sizes and constants of the native headers (\<^verbatim>\<open>sys/socket.h\<close>, \<^verbatim>\<open>netinet/in.h\<close>,
  \<^verbatim>\<open>sys/un.h\<close>) are not part of the repository; they are fixed here to the values of
  Linux/glibc on a little-endian machine, where \<^verbatim>\<open>sa_family_t\<close> is an unsigned 16-bit
  integer and the family is the leading field of every address structure.
\<close>

definition sizeof_sa_family_t :: nat where "sizeof_sa_family_t = 2"
definition sizeof_sockaddr :: nat where "sizeof_sockaddr = 16"
definition sizeof_sockaddr_in :: nat where "sizeof_sockaddr_in = 16"
definition sizeof_sockaddr_in6 :: nat where "sizeof_sockaddr_in6 = 28"
definition sizeof_sockaddr_un :: nat where "sizeof_sockaddr_un = 110"
definition sizeof_sockaddr_storage :: nat where "sizeof_sockaddr_storage = 128"

definition AF_UNSPEC :: "16 word" where "AF_UNSPEC = 0"
definition AF_UNIX :: "16 word" where "AF_UNIX = 1"
definition AF_INET :: "16 word" where "AF_INET = 2"
definition AF_INET6 :: "16 word" where "AF_INET6 = 10"

lemmas abi_sizes = sizeof_sa_family_t_def sizeof_sockaddr_def sizeof_sockaddr_in_def
  sizeof_sockaddr_in6_def sizeof_sockaddr_un_def sizeof_sockaddr_storage_def

text \<open>
  What a call can end in besides a value: the exception the source throws, or an access
  outside the object, which the C++ standard leaves undefined and which the model records
  with the number of bytes asked for and the number of bytes the object has.
\<close>

datatype fault =
    invalid_argument string
  | write_past_end nat nat
  | read_past_end nat nat

text \<open>\<^verbatim>\<open>memcpy(dst, src, n)\<close>: the first \<open>n\<close> bytes of \<open>dst\<close> become those of \<open>src\<close>.\<close>

definition memcpy :: "bytes \<Rightarrow> bytes \<Rightarrow> nat \<Rightarrow> fault + bytes" where
  "memcpy dst src n =
     (if length dst < n then Inl (write_past_end n (length dst))
      else if length src < n then Inl (read_past_end n (length src))
      else Inr (take n src @ drop n dst))"

text \<open>\<^verbatim>\<open>memcmp(s1, s2, n)\<close>: the sign of the first differing byte, as unsigned chars.\<close>

fun memcmp_loop :: "bytes \<Rightarrow> bytes \<Rightarrow> int" where
  "memcmp_loop (a # as) (b # bs) =
     (if a = b then memcmp_loop as bs else if a < b then - 1 else 1)"
| "memcmp_loop _ _ = 0"

definition memcmp :: "bytes \<Rightarrow> bytes \<Rightarrow> nat \<Rightarrow> fault + int" where
  "memcmp s1 s2 n =
     (if length s1 < n then Inl (read_past_end n (length s1))
      else if length s2 < n then Inl (read_past_end n (length s2))
      else Inr (memcmp_loop (take n s1) (take n s2)))"

text \<open>Reading and writing the leading \<^verbatim>\<open>sa_family_t\<close> of a structure (little endian).\<close>

definition sa_family :: "bytes \<Rightarrow> 16 word" where
  "sa_family bs = ucast (bs ! 0) OR push_bit 8 (ucast (bs ! 1))"

definition set_sa_family :: "bytes \<Rightarrow> 16 word \<Rightarrow> bytes" where
  "set_sa_family bs f = bs[0 := ucast f, 1 := ucast (drop_bit 8 f)]"

text \<open>Reading \<open>arr[i]\<close> from a C array: defined only inside the array.\<close>

definition array_read :: "bytes \<Rightarrow> int \<Rightarrow> byte option" where
  "array_read arr i = (if 0 \<le> i \<and> i < int (length arr) then Some (arr ! nat i) else None)"

text \<open>Objects live at addresses; a reference is the address of the object it names.\<close>

type_synonym ptr = nat
type_synonym heap = "ptr \<Rightarrow> bytes"

section \<open>inet6_address (inet6_address.h)\<close>

text \<open>
  \<^verbatim>\<open>struct sockaddr_in6\<close>: \<^verbatim>\<open>sin6_family\<close> at offset 0, \<^verbatim>\<open>sin6_port\<close> at 2,
  \<^verbatim>\<open>sin6_flowinfo\<close> at 4, \<^verbatim>\<open>sin6_addr\<close> (16 bytes) at 8, \<^verbatim>\<open>sin6_scope_id\<close> at 24.
  The class adds no member, so \<^verbatim>\<open>sizeof(inet6_address) = sizeof(sockaddr_in6)\<close>.
\<close>

definition sizeof_inet6_address :: nat where
  "sizeof_inet6_address = sizeof_sockaddr_in6"

definition sin6_addr :: "bytes \<Rightarrow> bytes" where
  "sin6_addr this = take 16 (drop 8 this)"

text \<open>\<^verbatim>\<open>in6_addr address() const { return this->sin6_addr; }\<close>\<close>

definition address :: "bytes \<Rightarrow> bytes" where
  "address this = sin6_addr this"

text \<open>\<^verbatim>\<open>uint8_t operator[](int i) const { return this->sin6_addr.s6_addr[i]; }\<close>\<close>

definition inet6_index :: "bytes \<Rightarrow> int \<Rightarrow> byte option" where
  "inet6_index this i = array_read (sin6_addr this) i"

text \<open>\<^verbatim>\<open>inet6_address(const sockaddr_storage& addr)\<close>\<close>

definition inet6_address_sockaddr_storage :: "bytes \<Rightarrow> bytes \<Rightarrow> fault + bytes" where
  "inet6_address_sockaddr_storage this addr = memcpy this addr sizeof_sockaddr_storage"

text \<open>
  \<^verbatim>\<open>inet6_address(const sock_address& addr)\<close>; the argument is the storage
  \<^verbatim>\<open>addr.sockaddr_ptr()\<close> points to.
\<close>

definition inet6_address_sock_address :: "bytes \<Rightarrow> bytes \<Rightarrow> fault + bytes" where
  "inet6_address_sock_address this addr_storage = memcpy this addr_storage sizeof_sockaddr_in"

text \<open>\<^verbatim>\<open>inet6_address(const sockaddr_in6& addr)\<close>\<close>

definition inet6_address_sockaddr_in6 :: "bytes \<Rightarrow> bytes \<Rightarrow> fault + bytes" where
  "inet6_address_sockaddr_in6 this addr = memcpy this addr sizeof_sockaddr_in6"

text \<open>\<^verbatim>\<open>inet6_address(const inet6_address& addr)\<close>\<close>

definition inet6_address_copy :: "bytes \<Rightarrow> bytes \<Rightarrow> fault + bytes" where
  "inet6_address_copy this addr = memcpy this addr sizeof_inet6_address"

text \<open>
  \<^verbatim>\<open>operator==(const inet6_address& lhs, const inet6_address& rhs)\<close>:
  \<^verbatim>\<open>(&lhs == &rhs) || (std::memcmp(&lhs, &rhs, sizeof(inet6_address)) == 0)\<close>.
\<close>

definition inet6_eq :: "heap \<Rightarrow> ptr \<Rightarrow> ptr \<Rightarrow> fault + bool" where
  "inet6_eq h lhs rhs =
     (if lhs = rhs then Inr True
      else case memcmp (h lhs) (h rhs) sizeof_inet6_address of
             Inl f \<Rightarrow> Inl f
           | Inr r \<Rightarrow> Inr (r = 0))"

text \<open>\<^verbatim>\<open>operator!=\<close>: \<^verbatim>\<open>!operator==(lhs, rhs)\<close>.\<close>

definition inet6_ne :: "heap \<Rightarrow> ptr \<Rightarrow> ptr \<Rightarrow> fault + bool" where
  "inet6_ne h lhs rhs =
     (case inet6_eq h lhs rhs of Inl f \<Rightarrow> Inl f | Inr b \<Rightarrow> Inr (\<not> b))"

text \<open>\<^verbatim>\<open>socklen_t size() const { return (socklen_t) sizeof(sockaddr_in6); }\<close>\<close>

definition inet6_size :: "bytes \<Rightarrow> nat" where
  "inet6_size this = sizeof_sockaddr_in6"

section \<open>sock_address\<close>

text \<open>
  Modelled from the spec: the class \<^verbatim>\<open>sock_address\<close> (sock_address.h) is used by the
  sources under study but is not among them. The spec describes it as the generic
  wrapper that "stores the discriminator, the byte length actually in use, and enough
  backing storage to hold the largest supported family": a \<^verbatim>\<open>sockaddr_storage\<close> and a
  length, filled by copying the first \<open>n\<close> bytes of the caller's structure.
\<close>

record sock_address =
  sa_storage :: bytes
  sa_size :: nat

definition sock_address :: "bytes \<Rightarrow> nat \<Rightarrow> fault + sock_address" where
  "sock_address addr n =
     (case memcpy (replicate sizeof_sockaddr_storage 0) addr n of
        Inl f \<Rightarrow> Inl f
      | Inr st \<Rightarrow> Inr \<lparr>sa_storage = st, sa_size = n\<rparr>)"

text \<open>
  \<^verbatim>\<open>sock_address to_sock_address() const { return sock_address(sockaddr_ptr(), size()); }\<close>
\<close>

definition to_sock_address :: "bytes \<Rightarrow> fault + sock_address" where
  "to_sock_address this = sock_address this (inet6_size this)"

section \<open>unix_address (unix_address.cpp)\<close>

text \<open>
  \<^verbatim>\<open>struct sockaddr_un\<close>: \<^verbatim>\<open>sun_family\<close> at offset 0 and the array \<^verbatim>\<open>sun_path\<close>
  (108 chars) at offset 2; \<^verbatim>\<open>unix_address\<close> is binary compatible with it.
\<close>

definition sizeof_sun_path :: nat where "sizeof_sun_path = 108"

definition sizeof_unix_address :: nat where
  "sizeof_unix_address = sizeof_sockaddr_un"

text \<open>
  Modelled from the spec: the two constants are declared in unix_address.h, which is not
  among the sources (unix_address.cpp only repeats their declarations). The family is
  the one the unit test reads back from a path-constructed address, and the spec names
  the bound "the maximum native path length", the size of \<^verbatim>\<open>sun_path\<close>.
\<close>

definition ADDRESS_FAMILY :: "16 word" where "ADDRESS_FAMILY = AF_UNIX"
definition MAX_PATH_NAME :: nat where "MAX_PATH_NAME = sizeof_sun_path"

definition sun_family :: "bytes \<Rightarrow> 16 word" where
  "sun_family this = sa_family this"

definition sun_path :: "bytes \<Rightarrow> bytes" where
  "sun_path this = take sizeof_sun_path (drop sizeof_sa_family_t this)"

definition set_sun_path :: "bytes \<Rightarrow> bytes \<Rightarrow> bytes" where
  "set_sun_path this p =
     take sizeof_sa_family_t this @ p @ drop (sizeof_sa_family_t + length p) this"

text \<open>
  A \<^verbatim>\<open>std::string\<close> is a sequence of chars, any of which may be NUL; \<^verbatim>\<open>c_str()\<close> is the
  array of these chars followed by a terminating NUL.
\<close>

definition bytes_of :: "string \<Rightarrow> bytes" where
  "bytes_of s = map of_char s"

definition c_str :: "string \<Rightarrow> bytes" where
  "c_str s = bytes_of s @ [0]"

text \<open>The chars of the C string that starts an array: those before its first NUL.\<close>

definition c_string :: "bytes \<Rightarrow> bytes" where
  "c_string arr = takeWhile (\<lambda>c. c \<noteq> 0) arr"

text \<open>
  \<^verbatim>\<open>strncpy(dst, src, n)\<close>: copies the C string at \<open>src\<close>, at most \<open>n\<close> chars of it, and
  fills what is left of the \<open>n\<close> chars with NUL; no NUL is written when the string has
  \<open>n\<close> chars or more.
\<close>

definition strncpy :: "bytes \<Rightarrow> bytes \<Rightarrow> nat \<Rightarrow> fault + bytes" where
  "strncpy dst src n =
     (let s = c_string src in
      if length dst < n then Inl (write_past_end n (length dst))
      else if length s = length src \<and> length src < n
        then Inl (read_past_end (Suc (length src)) (length src))
      else Inr (take n s @ replicate (n - length s) 0 @ drop n dst))"

text \<open>
  Reading a char array as a C string, as \<^verbatim>\<open>os << addr.sun_path\<close> does: the scan for
  the NUL leaves the array when the array holds none.
\<close>

definition read_c_string :: "bytes \<Rightarrow> fault + bytes" where
  "read_c_string arr =
     (if length (c_string arr) = length arr
        then Inl (read_past_end (Suc (length arr)) (length arr))
      else Inr (c_string arr))"

text \<open>\<^verbatim>\<open>unix_address::unix_address(const string& path)\<close>\<close>

definition unix_address_string :: "bytes \<Rightarrow> string \<Rightarrow> fault + bytes" where
  "unix_address_string this path =
     (let this1 = set_sa_family this ADDRESS_FAMILY in
      case strncpy (sun_path this1) (c_str path) MAX_PATH_NAME of
        Inl f \<Rightarrow> Inl f
      | Inr p \<Rightarrow> Inr (set_sun_path this1 p))"

text \<open>\<^verbatim>\<open>unix_address::unix_address(const sockaddr& addr)\<close>\<close>

definition unix_address_sockaddr :: "bytes \<Rightarrow> bytes \<Rightarrow> fault + bytes" where
  "unix_address_sockaddr this addr =
     (let domain = sa_family addr in
      if domain \<noteq> AF_UNIX then Inl (invalid_argument ''Not a UNIX-domain address'')
      else memcpy this addr sizeof_sockaddr)"

text \<open>\<^verbatim>\<open>unix_address::unix_address(const sockaddr_un& addr)\<close>\<close>

definition unix_address_sockaddr_un :: "bytes \<Rightarrow> bytes \<Rightarrow> fault + bytes" where
  "unix_address_sockaddr_un this addr =
     (if sun_family addr \<noteq> AF_UNIX
        then Inl (invalid_argument ''Not initialized as a UNIX-domain address'')
      else memcpy this addr sizeof_sockaddr_un)"

text \<open>
  \<^verbatim>\<open>ostream& operator<<(ostream& os, const unix_address& addr)\<close>; the stream is the
  sequence of chars written to it so far.
\<close>

definition unix_address_out :: "bytes \<Rightarrow> bytes \<Rightarrow> fault + bytes" where
  "unix_address_out os addr =
     (case read_c_string (sun_path addr) of
        Inl f \<Rightarrow> Inl f
      | Inr p \<Rightarrow> Inr (os @ bytes_of ''unix:'' @ p))"

section \<open>The operating system and the socket base class\<close>

text \<open>
  The answers of the operating system to the native calls the acceptor makes: the
  return values of \<^verbatim>\<open>::bind\<close> and \<^verbatim>\<open>::listen\<close>, the connection waiting on a listening
  descriptor (the new descriptor and the peer's native address), and the error code a
  failed call leaves behind.
\<close>

record os =
  sys_bind :: "int \<Rightarrow> bytes \<Rightarrow> nat \<Rightarrow> int"
  sys_listen :: "int \<Rightarrow> int \<Rightarrow> int"
  pending :: "int \<Rightarrow> (int \<times> bytes) option"
  errno :: int

text \<open>
  \<^verbatim>\<open>::accept(fd, addr, &len)\<close> as POSIX defines it and Linux implements it: \<open>len\<close> is
  a value-result argument, a 32-bit \<^verbatim>\<open>socklen_t\<close>; on entry it is the size of the buffer
  \<open>addr\<close>, and the peer's address is stored truncated to that size; on return it is the
  length of the peer's address. The call returns the new descriptor, or \<open>-1\<close>: when no
  connection can be accepted, and when the length on entry has its sign bit set, which
  the kernel refuses with \<^verbatim>\<open>EINVAL\<close>, storing nothing. The kernel trusts the length: one
  that is larger than the buffer lets it store past the end of the buffer, which shows
  here as a result longer than \<open>buf\<close>.
\<close>

definition native_accept :: "os \<Rightarrow> int \<Rightarrow> bytes \<Rightarrow> nat \<Rightarrow> int \<times> bytes \<times> nat" where
  "native_accept os fd buf len =
     (case pending os fd of
        None \<Rightarrow> (- 1, buf, len)
      | Some (s, peer) \<Rightarrow>
          if 2 ^ 31 \<le> len then (- 1, buf, len)
          else (s, take (min len (length peer)) peer @ drop (min len (length peer)) buf,
                length peer))"

text \<open>
  Modelled from the spec: the base class \<^verbatim>\<open>socket\<close> (socket.h) is not among the
  sources. The spec gives a socket handle two attributes, the descriptor (or the "no
  descriptor" sentinel) and the last-error slot, which every OS call updates, "cleared
  on success, set on failure"; \<^verbatim>\<open>check_ret\<close> hands the native return value on,
  \<^verbatim>\<open>check_ret_bool\<close> turns it into success or failure.
\<close>

definition INVALID_SOCKET :: int where "INVALID_SOCKET = - 1"

record socket =
  handle :: int
  lastErr :: int

definition is_open :: "'a socket_scheme \<Rightarrow> bool" where
  "is_open this = (handle this \<noteq> INVALID_SOCKET)"

definition check_ret :: "os \<Rightarrow> 'a socket_scheme \<Rightarrow> int \<Rightarrow> int \<times> 'a socket_scheme" where
  "check_ret os this ret = (ret, this\<lparr>lastErr := (if ret < 0 then errno os else 0)\<rparr>)"

definition check_ret_bool :: "os \<Rightarrow> 'a socket_scheme \<Rightarrow> int \<Rightarrow> bool \<times> 'a socket_scheme" where
  "check_ret_bool os this ret = (0 \<le> ret, this\<lparr>lastErr := (if ret < 0 then errno os else 0)\<rparr>)"

text \<open>\<^verbatim>\<open>explicit stream_socket(socket_t sock) : socket(sock) {}\<close>\<close>

definition stream_socket :: "int \<Rightarrow> socket" where
  "stream_socket sock = \<lparr>handle = sock, lastErr = 0\<rparr>"

section \<open>acceptor (acceptor.cpp, acceptor.h)\<close>

text \<open>
  An acceptor is a socket with the cached address \<^verbatim>\<open>addr_\<close> (the field
  \<open>addr_member\<close>; likewise \<open>handle\<close> and \<open>lastErr\<close> stand for \<^verbatim>\<open>handle_\<close> and
  \<^verbatim>\<open>lastErr_\<close>). In acceptor.cpp the member is a \<^verbatim>\<open>sock_address\<close>; in the class
  template it is the template's address type \<^verbatim>\<open>acc_addr\<close>, so the type of the member
  is a parameter.
\<close>

record 'addr acceptor = socket +
  addr_member :: 'addr

text \<open>
  \<^verbatim>\<open>bool acceptor::bind(const sockaddr* addr, socklen_t len)\<close>. The assignment
  \<^verbatim>\<open>addr_ = sock_address(addr, len)\<close> converts the \<^verbatim>\<open>sock_address\<close> to the type of
  the member with \<open>conv\<close>: the identity in acceptor.cpp, the converting constructor
  of \<^verbatim>\<open>acc_addr\<close> in the template.
\<close>

definition acceptor_bind ::
  "(sock_address \<Rightarrow> 'addr) \<Rightarrow> os \<Rightarrow> 'addr acceptor \<Rightarrow> bytes \<Rightarrow> nat
     \<Rightarrow> fault + bool \<times> 'addr acceptor" where
  "acceptor_bind conv os this addr len =
     (let (ok, this1) = check_ret_bool os this (sys_bind os (handle this) addr len) in
      if ok then
        (case sock_address addr len of
           Inl f \<Rightarrow> Inl f
         | Inr sa \<Rightarrow> Inr (ok, this1\<lparr>addr_member := conv sa\<rparr>))
      else Inr (ok, this1))"

text \<open>\<^verbatim>\<open>bool listen(int queSize) { return check_ret_bool(::listen(handle(), queSize)); }\<close>\<close>

definition acceptor_listen :: "os \<Rightarrow> 'addr acceptor \<Rightarrow> int \<Rightarrow> bool \<times> 'addr acceptor" where
  "acceptor_listen os this queSize = check_ret_bool os this (sys_listen os (handle this) queSize)"

text \<open>
  \<^verbatim>\<open>bool acceptor::open(const sockaddr* addr, socklen_t len, int queSize)\<close> in
  acceptor.cpp. The body between the braces is empty: no statement runs, and control
  leaves the function without a \<^verbatim>\<open>return\<close>, so the call has no defined return value
  (\<open>None\<close>) and the acceptor is as it was.
\<close>

definition acceptor_open ::
  "os \<Rightarrow> 'addr acceptor \<Rightarrow> bytes \<Rightarrow> nat \<Rightarrow> int \<Rightarrow> bool option \<times> 'addr acceptor" where
  "acceptor_open os this addr len queSize = (None, this)"

text \<open>
  \<^verbatim>\<open>std::pair<acc_socket,acc_addr> accept()\<close> of the class template. \<open>addr0\<close> is the
  default-constructed \<^verbatim>\<open>acc_addr addr\<close>; the local \<^verbatim>\<open>socklen_t len\<close> is declared
  without an initialiser, and \<open>len0\<close> is the value it happens to hold when its address
  is passed to \<^verbatim>\<open>::accept\<close>.
\<close>

definition acceptor_accept ::
  "bytes \<Rightarrow> nat \<Rightarrow> os \<Rightarrow> 'addr acceptor \<Rightarrow> (socket \<times> bytes) \<times> 'addr acceptor" where
  "acceptor_accept addr0 len0 os this =
     (let (ret, addr, len) = native_accept os (handle this) addr0 len0;
          (s, this1) = check_ret os this ret
      in ((stream_socket s, addr), this1))"

section \<open>Sample inputs\<close>

text \<open>The IPv6 loopback address \<^verbatim>\<open>[::1]\<close> with port 12345, as a \<^verbatim>\<open>sockaddr_in6\<close>.\<close>

definition loopback6 :: bytes where
  "loopback6 = [10, 0, 48, 57, 0, 0, 0, 0] @ replicate 15 0 @ [1] @ replicate 4 0"

text \<open>An operating system whose \<^verbatim>\<open>::bind\<close> fails with \<^verbatim>\<open>EADDRINUSE\<close> (98).\<close>

definition os_bind_fails :: os where
  "os_bind_fails =
     \<lparr>sys_bind = (\<lambda>fd addr len. - 1), sys_listen = (\<lambda>fd q. 0),
      pending = (\<lambda>fd. None), errno = 98\<rparr>"

text \<open>
  An operating system where every call succeeds and a connection from \<open>loopback6\<close>
  waits on the listening descriptor 3; accepting it gives descriptor 7.
\<close>

definition os_one_peer :: os where
  "os_one_peer =
     \<lparr>sys_bind = (\<lambda>fd addr len. 0), sys_listen = (\<lambda>fd q. 0),
      pending = (\<lambda>fd. if fd = 3 then Some (7, loopback6) else None), errno = 0\<rparr>"

section \<open>Facts about the C library model\<close>

lemma memcmp_loop_zero_iff:
  "length xs = length ys \<Longrightarrow> memcmp_loop xs ys = 0 \<longleftrightarrow> xs = ys"
proof (induction xs ys rule: memcmp_loop.induct)
  case (1 a as b bs)
  then show ?case by auto
qed simp_all

lemma memcmp_whole:
  assumes "length s1 = n" and "length s2 = n"
  shows "memcmp s1 s2 n = Inr (memcmp_loop s1 s2)"
  using assms by (simp add: memcmp_def)

lemma memcpy_whole:
  assumes "length dst = n" and "length src = n"
  shows "memcpy dst src n = Inr src"
  using assms by (simp add: memcpy_def)

lemma differ_at: "xs ! i \<noteq> ys ! i \<Longrightarrow> xs \<noteq> ys"
  by auto

lemma takeWhile_snoc_stop: "\<not> P y \<Longrightarrow> takeWhile P (xs @ [y]) = takeWhile P xs"
  by (induction xs) auto

lemma c_string_c_str: "c_string (c_str path) = c_string (bytes_of path)"
  by (simp add: c_string_def c_str_def takeWhile_snoc_stop)

lemma c_string_c_str_length: "length (c_string (c_str path)) < length (c_str path)"
proof -
  have "length (c_string (bytes_of path)) \<le> length (bytes_of path)"
    by (simp add: c_string_def length_takeWhile_le)
  then show ?thesis
    by (simp add: c_string_c_str) (simp add: c_str_def)
qed

lemma length_c_string_less:
  "0 \<in> set arr \<Longrightarrow> length (c_string arr) < length arr"
  unfolding c_string_def by (induction arr) auto

lemma byte_of_char_eq_0_iff: "(of_char c :: byte) = 0 \<longleftrightarrow> c = CHR 0x00"
proof
  assume z: "(of_char c :: byte) = 0"
  have "(word_of_nat (of_char c) :: byte) = 0"
    using z by (simp add: of_nat_of_char)
  then have "256 dvd (of_char c :: nat)"
    by (simp add: word_of_nat_eq_0_iff)
  then obtain k where k: "(of_char c :: nat) = 256 * k" ..
  moreover have "(of_char c :: nat) < 256"
    by simp
  ultimately have "k = 0"
    by simp
  with k have "(of_char c :: nat) = of_char (CHR 0x00)"
    by simp
  then show "c = CHR 0x00"
    by (simp only: of_char_eq_iff)
qed simp

lemma c_string_no_nul:
  assumes "CHR 0x00 \<notin> set path"
  shows "c_string (bytes_of path) = bytes_of path"
proof -
  have "\<forall>b\<in>set (bytes_of path). b \<noteq> 0"
    using assms by (auto simp add: bytes_of_def byte_of_char_eq_0_iff)
  then show ?thesis
    by (simp add: c_string_def)
qed

section \<open>Facts about the unix_address constructors\<close>

lemma length_set_sa_family: "length (set_sa_family bs f) = length bs"
  by (simp add: set_sa_family_def)

lemma take_2_set_sa_family_unix:
  assumes "2 \<le> length bs"
  shows "take 2 (set_sa_family bs AF_UNIX) = [1, 0]"
proof -
  from assms obtain a b rest where "bs = a # b # rest"
    by (cases bs; cases "tl bs") auto
  then show ?thesis
    by (simp add: set_sa_family_def AF_UNIX_def)
qed

lemma sun_path_built:
  assumes "length p = sizeof_sun_path"
  shows "sun_path ([a, b] @ p @ rest) = p"
  using assms by (simp add: sun_path_def abi_sizes)

lemma sa_family_built: "sa_family (1 # 0 # rest) = AF_UNIX"
  by (simp add: sa_family_def AF_UNIX_def)

text \<open>
  The object the path constructor builds: the family, then the C string of the path cut
  at \<open>MAX_PATH_NAME\<close> chars and filled up with NULs.
\<close>

lemma unix_address_string_bytes:
  assumes "length this = sizeof_unix_address"
  shows "unix_address_string this path =
           Inr ([1, 0]
                @ take MAX_PATH_NAME (c_string (bytes_of path))
                @ replicate (MAX_PATH_NAME - length (c_string (bytes_of path))) 0)"
proof -
  have "2 \<le> length this"
    using assms by (simp add: sizeof_unix_address_def abi_sizes)
  then have t2: "take 2 (set_sa_family this ADDRESS_FAMILY) = [1, 0]"
    by (simp add: ADDRESS_FAMILY_def take_2_set_sa_family_unix)
  show ?thesis
    using assms c_string_c_str_length [of path] t2
    by (simp add: unix_address_string_def strncpy_def sun_path_def set_sun_path_def Let_def
        length_set_sa_family sizeof_unix_address_def abi_sizes MAX_PATH_NAME_def
        sizeof_sun_path_def c_string_c_str)
qed

text \<open>
  Streaming an address whose \<^verbatim>\<open>sun_path\<close> holds a NUL appends \<^verbatim>\<open>unix:\<close> and the chars of
  \<^verbatim>\<open>sun_path\<close> before its first NUL.
\<close>

lemma unix_address_out_terminated:
  assumes "0 \<in> set (sun_path a)"
  shows "unix_address_out os a = Inr (os @ bytes_of ''unix:'' @ c_string (sun_path a))"
  using length_c_string_less [OF assms]
  by (simp add: unix_address_out_def read_c_string_def)

section \<open>C1: the family check of the constructors from native structures\<close>

text \<open>
  C1, as the code has it. The two constructors of \<^verbatim>\<open>unix_address\<close> from a native
  structure (\<^verbatim>\<open>sockaddr_un\<close>, \<^verbatim>\<open>sockaddr\<close>) throw \<^verbatim>\<open>std::invalid_argument\<close> exactly when
  the leading family differs from \<^verbatim>\<open>AF_UNIX\<close>, and yield an address otherwise (the whole
  structure, respectively its first \<^verbatim>\<open>sizeof(sockaddr)\<close> bytes). The constructors of
  \<^verbatim>\<open>inet6_address\<close> check no family: none of them ever reports an invalid argument, and
  the one from \<^verbatim>\<open>sockaddr_in6\<close> yields a byte copy of the structure whatever its
  discriminator is.
\<close>

theorem native_constructor_family_check:
  assumes "length this = sizeof_unix_address"
    and "length un = sizeof_sockaddr_un"
    and "sizeof_sockaddr \<le> length sa"
    and "length this6 = sizeof_inet6_address"
    and "length in6 = sizeof_sockaddr_in6"
  shows "unix_address_sockaddr_un this un =
           (if sun_family un = AF_UNIX then Inr un
            else Inl (invalid_argument ''Not initialized as a UNIX-domain address''))
       \<and> unix_address_sockaddr this sa =
           (if sa_family sa = AF_UNIX
              then Inr (take sizeof_sockaddr sa @ drop sizeof_sockaddr this)
            else Inl (invalid_argument ''Not a UNIX-domain address''))
       \<and> inet6_address_sockaddr_in6 this6 in6 = Inr in6
       \<and> (\<forall>m. inet6_address_sockaddr_storage this6 st \<noteq> Inl (invalid_argument m))
       \<and> (\<forall>m. inet6_address_sock_address this6 ss \<noteq> Inl (invalid_argument m))"
proof -
  have un: "unix_address_sockaddr_un this un =
           (if sun_family un = AF_UNIX then Inr un
            else Inl (invalid_argument ''Not initialized as a UNIX-domain address''))"
    using assms(1,2)
    by (simp add: unix_address_sockaddr_un_def memcpy_whole sizeof_unix_address_def)
  have sa: "unix_address_sockaddr this sa =
           (if sa_family sa = AF_UNIX
              then Inr (take sizeof_sockaddr sa @ drop sizeof_sockaddr this)
            else Inl (invalid_argument ''Not a UNIX-domain address''))"
    using assms(1,3)
    by (simp add: unix_address_sockaddr_def memcpy_def sizeof_unix_address_def abi_sizes)
  have in6: "inet6_address_sockaddr_in6 this6 in6 = Inr in6"
    using assms(4,5)
    by (simp add: inet6_address_sockaddr_in6_def memcpy_whole sizeof_inet6_address_def)
  have st: "inet6_address_sockaddr_storage this6 st \<noteq> Inl (invalid_argument m)" for m
    by (simp add: inet6_address_sockaddr_storage_def memcpy_def)
  have ss: "inet6_address_sock_address this6 ss \<noteq> Inl (invalid_argument m)" for m
    by (simp add: inet6_address_sock_address_def memcpy_def)
  from un sa in6 st ss show ?thesis by blast
qed

text \<open>
  The theorem at concrete structures: \<^verbatim>\<open>unix_address\<close> accepts family 1 (\<^verbatim>\<open>AF_UNIX\<close>)
  and rejects families 2 and 10; \<^verbatim>\<open>inet6_address\<close> accepts a structure of family 1.
\<close>

theorem native_constructor_family_check_witness:
  "unix_address_sockaddr_un (replicate 110 255) (1 # 0 # replicate 108 0)
     = Inr (1 # 0 # replicate 108 0)
   \<and> unix_address_sockaddr_un (replicate 110 255) (2 # 0 # replicate 108 0)
     = Inl (invalid_argument ''Not initialized as a UNIX-domain address'')
   \<and> unix_address_sockaddr (replicate 110 255) (1 # 0 # replicate 14 0)
     = Inr (1 # 0 # replicate 14 0 @ replicate 94 255)
   \<and> unix_address_sockaddr (replicate 110 255) (10 # 0 # replicate 26 0)
     = Inl (invalid_argument ''Not a UNIX-domain address'')
   \<and> inet6_address_sockaddr_in6 (replicate 28 255) (1 # 0 # replicate 26 0)
     = Inr (1 # 0 # replicate 26 0)"
  using native_constructor_family_check [of "replicate 110 255" "1 # 0 # replicate 108 0"
      "1 # 0 # replicate 14 0" "replicate 28 255" "1 # 0 # replicate 26 0"]
    native_constructor_family_check [of "replicate 110 255" "2 # 0 # replicate 108 0"
      "10 # 0 # replicate 26 0" "replicate 28 255" "1 # 0 # replicate 26 0"]
  by (simp add: sizeof_unix_address_def sizeof_inet6_address_def abi_sizes sun_family_def
      sa_family_def AF_UNIX_def)

text \<open>
  As the specification states it, C1 fails for \<^verbatim>\<open>inet6_address\<close>: a \<^verbatim>\<open>sockaddr_in6\<close>
  whose family field holds \<^verbatim>\<open>AF_INET\<close> is turned into an address, with no error.
\<close>

theorem inet6_address_unchecked_counterexample:
  "sa_family (2 # 0 # replicate 26 0) = AF_INET
   \<and> AF_INET \<noteq> AF_INET6
   \<and> inet6_address_sockaddr_in6 (replicate 28 0) (2 # 0 # replicate 26 0)
       = Inr (2 # 0 # replicate 26 0)"
  by (simp add: sa_family_def AF_INET_def AF_INET6_def inet6_address_sockaddr_in6_def
      memcpy_def abi_sizes)

section \<open>C2: reconstructing an address from its own native structure\<close>

text \<open>
  C2. The specification states that an address rebuilt from its own native structure
  equals the original byte for byte. The code does not do that. For IPv6, \<open>loopback6\<close> converted with
  \<^verbatim>\<open>to_sock_address()\<close> and back with \<^verbatim>\<open>inet6_address(const sock_address&)\<close> keeps
  only its first \<^verbatim>\<open>sizeof(sockaddr_in)\<close> = 16 bytes: the last 8 bytes of the address and
  the scope id are whatever the storage held (zero here), and \<^verbatim>\<open>::1\<close> comes back as
  \<^verbatim>\<open>::\<close>. For UNIX-domain, the address of the 23-char path
  \<^verbatim>\<open>/tmp/sockpp_server.sock\<close> rebuilt with \<^verbatim>\<open>unix_address(const sockaddr&)\<close> keeps
  only \<^verbatim>\<open>sizeof(sockaddr)\<close> = 16 bytes, the family and 14 chars of the path.
\<close>

theorem native_round_trip_truncates:
  "to_sock_address loopback6
     = Inr \<lparr>sa_storage = loopback6 @ replicate 100 0, sa_size = 28\<rparr>
   \<and> inet6_address_sock_address (replicate 28 0) (loopback6 @ replicate 100 0)
     = Inr ([10, 0, 48, 57] @ replicate 24 0)
   \<and> [10, 0, 48, 57] @ replicate 24 0 \<noteq> loopback6
   \<and> unix_address_string (replicate 110 0) ''/tmp/sockpp_server.sock''
     = Inr (1 # 0 # bytes_of ''/tmp/sockpp_server.sock'' @ replicate 85 0)
   \<and> unix_address_sockaddr (replicate 110 0)
        (1 # 0 # bytes_of ''/tmp/sockpp_server.sock'' @ replicate 85 0)
     = Inr (1 # 0 # bytes_of ''/tmp/sockpp_se'' @ replicate 94 0)
   \<and> 1 # 0 # bytes_of ''/tmp/sockpp_se'' @ replicate 94 0
     \<noteq> 1 # 0 # bytes_of ''/tmp/sockpp_server.sock'' @ replicate 85 0"
proof -
  have a: "to_sock_address loopback6
     = Inr \<lparr>sa_storage = loopback6 @ replicate 100 0, sa_size = 28\<rparr>"
    by (simp add: to_sock_address_def sock_address_def memcpy_def inet6_size_def abi_sizes
        loopback6_def)
  have b: "inet6_address_sock_address (replicate 28 0) (loopback6 @ replicate 100 0)
     = Inr ([10, 0, 48, 57] @ replicate 24 0)"
    by (simp add: inet6_address_sock_address_def memcpy_def abi_sizes loopback6_def
        Cons_replicate_eq replicate_add [symmetric])
  have c: "[10, 0, 48, 57] @ replicate 24 0 \<noteq> loopback6"
    by (rule differ_at [of _ 23]) (simp add: loopback6_def nth_append)
  have d: "unix_address_string (replicate 110 0) ''/tmp/sockpp_server.sock''
     = Inr (1 # 0 # bytes_of ''/tmp/sockpp_server.sock'' @ replicate 85 0)"
    using unix_address_string_bytes [of "replicate 110 0" "''/tmp/sockpp_server.sock''"]
    by (simp add: sizeof_unix_address_def abi_sizes MAX_PATH_NAME_def sizeof_sun_path_def
        bytes_of_def c_string_def)
  have e: "unix_address_sockaddr (replicate 110 0)
        (1 # 0 # bytes_of ''/tmp/sockpp_server.sock'' @ replicate 85 0)
     = Inr (1 # 0 # bytes_of ''/tmp/sockpp_se'' @ replicate 94 0)"
    by (simp add: unix_address_sockaddr_def memcpy_def abi_sizes sa_family_def AF_UNIX_def
        bytes_of_def)
  have f: "1 # 0 # bytes_of ''/tmp/sockpp_se'' @ replicate 94 0
     \<noteq> 1 # 0 # bytes_of ''/tmp/sockpp_server.sock'' @ replicate 85 0"
    by (rule differ_at [of _ 16]) (simp add: bytes_of_def nth_append)
  from a b c d e f show ?thesis by blast
qed

section \<open>C3: the number of bytes a constructor copies\<close>

text \<open>
  C3. The specification states that no constructor from a native structure copies more
  bytes than the new object has. \<^verbatim>\<open>inet6_address(const sockaddr_storage&)\<close> copies
  \<^verbatim>\<open>sizeof(sockaddr_storage)\<close> = 128 bytes into an object of
  \<^verbatim>\<open>sizeof(sockaddr_in6)\<close> = 28 bytes: for every argument it writes 100 bytes past the
  end of the object under construction.
\<close>

theorem inet6_address_sockaddr_storage_overrun:
  "length (replicate 28 (0 :: byte)) = sizeof_inet6_address
   \<and> length (replicate 128 (0 :: byte)) = sizeof_sockaddr_storage
   \<and> inet6_address_sockaddr_storage (replicate 28 0) (replicate 128 0)
       = Inl (write_past_end 128 28)"
  by (simp add: inet6_address_sockaddr_storage_def memcpy_def sizeof_inet6_address_def
      abi_sizes)

section \<open>C4: acceptor::open\<close>

text \<open>
  C4. The specification states that \<^verbatim>\<open>acceptor::open\<close> allocates a descriptor, binds
  and listens, and returns true. The function in acceptor.cpp has an empty body: whatever the arguments,
  it makes no call, returns no value and leaves the acceptor as it was; an unopened
  acceptor stays unopened even when every native call would succeed.
\<close>

theorem acceptor_open_does_nothing:
  "acceptor_open os this addr len queSize = (None, this)
   \<and> acceptor_open os_one_peer \<lparr>handle = INVALID_SOCKET, lastErr = 0, addr_member = a\<rparr>
        loopback6 28 4
       = (None, \<lparr>handle = INVALID_SOCKET, lastErr = 0, addr_member = a\<rparr>)
   \<and> \<not> is_open \<lparr>handle = INVALID_SOCKET, lastErr = 0, addr_member = a\<rparr>"
  by (simp add: acceptor_open_def is_open_def)

section \<open>C5: acceptor::bind\<close>

text \<open>
  C5, as the code has it. When the native bind fails, \<^verbatim>\<open>acceptor::bind\<close> returns false
  and leaves the cached address and the handle as they were: it sets the last-error
  slot and does not close the handle. When the native bind succeeds it returns true and
  caches \<^verbatim>\<open>sock_address(addr, len)\<close> in \<^verbatim>\<open>addr_\<close>.
\<close>

theorem acceptor_bind_result:
  assumes "sock_address addr len = Inr sa"
  shows "acceptor_bind conv os this addr len =
           (if 0 \<le> sys_bind os (handle this) addr len
              then Inr (True, this\<lparr>lastErr := 0, addr_member := conv sa\<rparr>)
            else Inr (False, this\<lparr>lastErr := errno os\<rparr>))
       \<and> (if 0 \<le> sys_bind os (handle this) addr len then True
           else \<exists>this1. acceptor_bind conv os this addr len = Inr (False, this1)
                  \<and> addr_member this1 = addr_member this \<and> handle this1 = handle this)"
  using assms by (simp add: acceptor_bind_def check_ret_bool_def)

text \<open>A bind that succeeds and a bind that fails, on an acceptor with descriptor 3.\<close>

theorem acceptor_bind_result_witness:
  "acceptor_bind id os_one_peer
       \<lparr>handle = 3, lastErr = 5, addr_member = \<lparr>sa_storage = [], sa_size = 0\<rparr>\<rparr> loopback6 28
     = Inr (True, \<lparr>handle = 3, lastErr = 0,
                   addr_member = \<lparr>sa_storage = loopback6 @ replicate 100 0, sa_size = 28\<rparr>\<rparr>)
   \<and> acceptor_bind id os_bind_fails
       \<lparr>handle = 3, lastErr = 5, addr_member = \<lparr>sa_storage = [], sa_size = 0\<rparr>\<rparr> loopback6 28
     = Inr (False,
            \<lparr>handle = 3, lastErr = 98, addr_member = \<lparr>sa_storage = [], sa_size = 0\<rparr>\<rparr>)"
proof -
  have h: "sock_address loopback6 28
      = Inr \<lparr>sa_storage = loopback6 @ replicate 100 0, sa_size = 28\<rparr>"
    by (simp add: sock_address_def memcpy_def abi_sizes loopback6_def)
  show ?thesis
    using acceptor_bind_result [OF h, of id os_one_peer
        "\<lparr>handle = 3, lastErr = 5, addr_member = \<lparr>sa_storage = [], sa_size = 0\<rparr>\<rparr>"]
      acceptor_bind_result [OF h, of id os_bind_fails
        "\<lparr>handle = 3, lastErr = 5, addr_member = \<lparr>sa_storage = [], sa_size = 0\<rparr>\<rparr>"]
    by (simp add: os_one_peer_def os_bind_fails_def)
qed

text \<open>
  As the specification states it, C5 fails: after a native bind that fails, the
  acceptor still holds its descriptor.
\<close>

theorem acceptor_bind_failure_counterexample:
  "sys_bind os_bind_fails 3 loopback6 28 < 0
   \<and> acceptor_bind id os_bind_fails
       \<lparr>handle = 3, lastErr = 0, addr_member = \<lparr>sa_storage = [], sa_size = 0\<rparr>\<rparr> loopback6 28
     = Inr (False,
            \<lparr>handle = 3, lastErr = 98, addr_member = \<lparr>sa_storage = [], sa_size = 0\<rparr>\<rparr>)
   \<and> is_open \<lparr>handle = 3, lastErr = 98, addr_member = \<lparr>sa_storage = [], sa_size = 0\<rparr>\<rparr>"
  by (simp add: acceptor_bind_def check_ret_bool_def os_bind_fails_def is_open_def
      INVALID_SOCKET_def)

section \<open>C6: acceptor::accept\<close>

text \<open>
  C6. The specification states that \<^verbatim>\<open>accept\<close> returns the new socket together with
  the peer's address, correctly filled in. The template's \<^verbatim>\<open>accept\<close> passes the address of a local
  \<^verbatim>\<open>socklen_t len\<close> that was never given a value. When that value is 0, the native call
  stores no byte of the peer's address: a connection from \<open>loopback6\<close> is accepted (the
  socket wraps descriptor 7, the acceptor keeps its handle and cached address) and
  reported with the all-zero default address. Had \<open>len\<close> held the size of the address,
  28, the peer's address would have been returned.
\<close>

theorem acceptor_accept_uninitialised_len:
  "pending os_one_peer 3 = Some (7, loopback6)
   \<and> acceptor_accept (replicate 28 0) 0 os_one_peer
        \<lparr>handle = 3, lastErr = 0, addr_member = a\<rparr>
     = ((\<lparr>handle = 7, lastErr = 0\<rparr>, replicate 28 0),
        \<lparr>handle = 3, lastErr = 0, addr_member = a\<rparr>)
   \<and> replicate 28 0 \<noteq> loopback6
   \<and> acceptor_accept (replicate 28 0) 28 os_one_peer
        \<lparr>handle = 3, lastErr = 0, addr_member = a\<rparr>
     = ((\<lparr>handle = 7, lastErr = 0\<rparr>, loopback6),
        \<lparr>handle = 3, lastErr = 0, addr_member = a\<rparr>)"
proof -
  have ne: "loopback6 \<noteq> replicate 28 0"
    by (rule differ_at [of _ 0]) (simp add: loopback6_def)
  have len: "length loopback6 = 28"
    by (simp add: loopback6_def)
  show ?thesis
    using ne [THEN not_sym] len
    by (simp add: acceptor_accept_def native_accept_def check_ret_def stream_socket_def
        os_one_peer_def)
qed

section \<open>C7: unix_address from a path string\<close>

text \<open>
  C7, as the code has it. For every path string, the constructor sets the family to
  \<^verbatim>\<open>AF_UNIX\<close> and fills all \<open>MAX_PATH_NAME\<close> bytes of \<^verbatim>\<open>sun_path\<close>, and nothing beyond
  them, with the C string of the path (its chars before the first NUL) cut at
  \<open>MAX_PATH_NAME\<close> chars and followed by NULs. So for a path shorter than the maximum
  that holds no NUL char, the stored path is the input and the rest of \<^verbatim>\<open>sun_path\<close> is
  zero.
\<close>

theorem unix_address_string_path:
  assumes "length this = sizeof_unix_address"
  shows "\<exists>a. unix_address_string this path = Inr a
           \<and> length a = sizeof_unix_address
           \<and> sun_family a = AF_UNIX
           \<and> length (sun_path a) = MAX_PATH_NAME
           \<and> sun_path a = take MAX_PATH_NAME (c_string (bytes_of path))
                  @ replicate (MAX_PATH_NAME - length (c_string (bytes_of path))) 0
           \<and> (CHR 0x00 \<notin> set path \<and> length path < MAX_PATH_NAME \<longrightarrow>
                sun_path a = bytes_of path @ replicate (MAX_PATH_NAME - length path) 0)"
proof -
  let ?s = "c_string (bytes_of path)"
  let ?p = "take MAX_PATH_NAME ?s @ replicate (MAX_PATH_NAME - length ?s) 0"
  let ?a = "[1, 0] @ ?p @ []"
  have lp: "length ?p = sizeof_sun_path"
    by (simp add: MAX_PATH_NAME_def)
  have built: "unix_address_string this path = Inr ?a"
    using unix_address_string_bytes [OF assms, of path] by simp
  have len: "length ?a = sizeof_unix_address"
    using lp by (simp add: sizeof_unix_address_def abi_sizes sizeof_sun_path_def)
  have fam: "sun_family ?a = AF_UNIX"
    by (simp add: sun_family_def sa_family_built)
  have path: "sun_path ?a = ?p"
    using lp by (rule sun_path_built)
  have short: "?p = bytes_of path @ replicate (MAX_PATH_NAME - length path) 0"
    if "CHR 0x00 \<notin> set path" "length path < MAX_PATH_NAME"
    using that by (simp add: c_string_no_nul) (simp add: bytes_of_def)
  show ?thesis
  proof (intro exI conjI impI)
    show "unix_address_string this path = Inr ?a"
      by (rule built)
    show "length ?a = sizeof_unix_address"
      by (rule len)
    show "sun_family ?a = AF_UNIX"
      by (rule fam)
    show "length (sun_path ?a) = MAX_PATH_NAME"
      unfolding path using lp by (simp only: MAX_PATH_NAME_def)
    show "sun_path ?a = ?p"
      by (rule path)
    assume "CHR 0x00 \<notin> set path \<and> length path < MAX_PATH_NAME"
    then show "sun_path ?a = bytes_of path @ replicate (MAX_PATH_NAME - length path) 0"
      unfolding path using short by blast
  qed
qed

text \<open>The path of the unit test, in storage that held the byte 255 everywhere.\<close>

theorem unix_address_string_path_witness:
  "\<exists>a. unix_address_string (replicate 110 255) ''/tmp/sock'' = Inr a
      \<and> sun_family a = AF_UNIX
      \<and> sun_path a = bytes_of ''/tmp/sock'' @ replicate 99 0"
proof -
  have h: "length (replicate 110 (255 :: byte)) = sizeof_unix_address"
    by (simp add: sizeof_unix_address_def abi_sizes)
  have n: "CHR 0x00 \<notin> set ''/tmp/sock'' \<and> length ''/tmp/sock'' < MAX_PATH_NAME"
    by (simp add: MAX_PATH_NAME_def sizeof_sun_path_def)
  from unix_address_string_path [OF h, of "''/tmp/sock''"] n
  obtain a where "unix_address_string (replicate 110 255) ''/tmp/sock'' = Inr a"
    and "sun_family a = AF_UNIX"
    and "sun_path a = bytes_of ''/tmp/sock'' @ replicate (MAX_PATH_NAME - length ''/tmp/sock'') 0"
    by blast
  then show ?thesis
    by (simp add: MAX_PATH_NAME_def sizeof_sun_path_def)
qed

text \<open>
  As the specification states it, C7 fails for a path with a NUL char, such as the name
  of a socket in Linux's abstract namespace, which starts with one: the 3-char path
  \<^verbatim>\<open>\0sk\<close> is shorter than the maximum, and the stored path is empty, not the input.
\<close>

theorem unix_address_string_nul_counterexample:
  "length [CHR 0x00, CHR ''s'', CHR ''k''] < MAX_PATH_NAME
   \<and> unix_address_string (replicate 110 0) [CHR 0x00, CHR ''s'', CHR ''k'']
       = Inr (1 # 0 # replicate 108 0)
   \<and> sun_path (1 # 0 # replicate 108 0)
       \<noteq> bytes_of [CHR 0x00, CHR ''s'', CHR ''k'']
           @ replicate (MAX_PATH_NAME - length [CHR 0x00, CHR ''s'', CHR ''k'']) 0"
proof -
  have "unix_address_string (replicate 110 0) [CHR 0x00, CHR ''s'', CHR ''k'']
       = Inr (1 # 0 # replicate 108 0)"
    using unix_address_string_bytes [of "replicate 110 0" "[CHR 0x00, CHR ''s'', CHR ''k'']"]
    by (simp add: sizeof_unix_address_def abi_sizes MAX_PATH_NAME_def sizeof_sun_path_def
        c_string_def bytes_of_def)
  moreover have "sun_path (1 # 0 # replicate 108 0) = replicate 108 0"
    by (simp add: sun_path_def abi_sizes sizeof_sun_path_def)
  moreover have ne: "(0 :: byte) # 115 # 107 # replicate 105 0 \<noteq> replicate 108 0"
    by (simp add: Cons_replicate_eq)
  ultimately show ?thesis
    using ne [THEN not_sym]
    by (simp add: MAX_PATH_NAME_def sizeof_sun_path_def bytes_of_def)
qed

section \<open>C8: equality of IPv6 addresses\<close>

text \<open>
  C8. For two \<^verbatim>\<open>inet6_address\<close> objects (each \<^verbatim>\<open>sizeof(inet6_address)\<close> bytes long),
  \<^verbatim>\<open>operator==\<close> is true exactly when the two objects hold the same bytes; it is
  reflexive and symmetric, \<^verbatim>\<open>operator!=\<close> is its negation, and an object built by the
  copy constructor (in any storage of the right size, at any address) compares equal to
  its source.
\<close>

theorem inet6_eq_bitwise:
  assumes "length (h lhs) = sizeof_inet6_address"
    and "length (h rhs) = sizeof_inet6_address"
    and "length this = sizeof_inet6_address"
  shows "inet6_eq h lhs rhs = Inr (h lhs = h rhs)
       \<and> inet6_eq h lhs lhs = Inr True
       \<and> inet6_eq h rhs lhs = inet6_eq h lhs rhs
       \<and> inet6_ne h lhs rhs = Inr (h lhs \<noteq> h rhs)
       \<and> inet6_address_copy this (h lhs) = Inr (h lhs)
       \<and> inet6_eq (h(new := h lhs)) new lhs = Inr True"
proof -
  have eq: "inet6_eq h lhs rhs = Inr (h lhs = h rhs)"
    using assms(1,2) by (simp add: inet6_eq_def memcmp_whole memcmp_loop_zero_iff)
  have eq': "inet6_eq h rhs lhs = Inr (h rhs = h lhs)"
    using assms(1,2) by (simp add: inet6_eq_def memcmp_whole memcmp_loop_zero_iff)
  have refl: "inet6_eq h lhs lhs = Inr True"
    by (simp add: inet6_eq_def)
  have sym: "inet6_eq h rhs lhs = inet6_eq h lhs rhs"
    unfolding eq eq' by auto
  have ne: "inet6_ne h lhs rhs = Inr (h lhs \<noteq> h rhs)"
    by (simp add: inet6_ne_def eq)
  have copy: "inet6_address_copy this (h lhs) = Inr (h lhs)"
    using assms(1,3) by (simp add: inet6_address_copy_def memcpy_whole)
  have copy_eq: "inet6_eq (h(new := h lhs)) new lhs = Inr True"
    using assms(1) by (simp add: inet6_eq_def memcmp_whole memcmp_loop_zero_iff)
  from eq refl sym ne copy copy_eq show ?thesis by simp
qed

text \<open>
  Two different addresses at 1 and 2, and a copy of the first made at 3 in storage that
  held the byte 255 everywhere.
\<close>

theorem inet6_eq_bitwise_witness:
  "inet6_eq ((\<lambda>_. replicate 28 0)(1 := loopback6)) 1 2 = Inr False
   \<and> inet6_eq ((\<lambda>_. replicate 28 0)(1 := loopback6)) 1 1 = Inr True
   \<and> inet6_ne ((\<lambda>_. replicate 28 0)(1 := loopback6)) 1 2 = Inr True
   \<and> inet6_address_copy (replicate 28 255) loopback6 = Inr loopback6
   \<and> inet6_eq ((\<lambda>_. replicate 28 0)(1 := loopback6, 3 := loopback6)) 3 1 = Inr True"
proof -
  have ne: "loopback6 \<noteq> replicate 28 0"
    by (rule differ_at [of _ 0]) (simp add: loopback6_def)
  have len: "length loopback6 = 28"
    by (simp add: loopback6_def)
  show ?thesis
    using ne len inet6_eq_bitwise [of "(\<lambda>_. replicate 28 0)(1 := loopback6)" 1 2
        "replicate 28 255" 3]
    by (simp add: sizeof_inet6_address_def abi_sizes)
qed

section \<open>C9: the textual form of a UNIX-domain address\<close>

text \<open>
  C9. The specification states that streaming any \<^verbatim>\<open>unix_address\<close> produces the
  literal \<^verbatim>\<open>unix:\<close> followed by the stored path. The code does not do that for an
  address whose path fills \<^verbatim>\<open>sun_path\<close>. The path constructor stores a path of 108
  chars with no NUL after it, since \<^verbatim>\<open>strncpy\<close> is given the whole size of the array;
  \<^verbatim>\<open>operator<<\<close> then streams \<^verbatim>\<open>sun_path\<close> as a C string, and its scan for the NUL
  leaves the array and the object: a read past the end instead of the text \<^verbatim>\<open>unix:\<close>
  and the 108 stored chars. For a shorter path, such as \<^verbatim>\<open>/tmp/sock\<close>, the output is
  what the specification says.
\<close>

theorem unix_address_out_reads_past_end:
  "unix_address_string (replicate 110 0) (replicate 108 CHR ''a'')
     = Inr (1 # 0 # replicate 108 97)
   \<and> sun_path (1 # 0 # replicate 108 97) = replicate 108 97
   \<and> unix_address_out [] (1 # 0 # replicate 108 97) = Inl (read_past_end 109 108)
   \<and> unix_address_string (replicate 110 0) ''/tmp/sock''
     = Inr (1 # 0 # bytes_of ''/tmp/sock'' @ replicate 99 0)
   \<and> unix_address_out [] (1 # 0 # bytes_of ''/tmp/sock'' @ replicate 99 0)
     = Inr (bytes_of ''unix:/tmp/sock'')"
proof -
  have cs: "c_string (replicate 108 97) = replicate 108 97"
    by (simp add: c_string_def)
  have built: "unix_address_string (replicate 110 0) (replicate 108 CHR ''a'')
     = Inr (1 # 0 # replicate 108 97)"
    using unix_address_string_bytes [of "replicate 110 0" "replicate 108 CHR ''a''"]
    by (simp add: sizeof_unix_address_def abi_sizes MAX_PATH_NAME_def sizeof_sun_path_def
        bytes_of_def cs)
  have full: "sun_path (1 # 0 # replicate 108 97) = replicate 108 97"
    by (simp add: sun_path_def abi_sizes sizeof_sun_path_def)
  have over: "unix_address_out [] (1 # 0 # replicate 108 97) = Inl (read_past_end 109 108)"
    by (simp add: unix_address_out_def read_c_string_def full cs)
  have built': "unix_address_string (replicate 110 0) ''/tmp/sock''
     = Inr (1 # 0 # bytes_of ''/tmp/sock'' @ replicate 99 0)"
    using unix_address_string_bytes [of "replicate 110 0" "''/tmp/sock''"]
    by (simp add: sizeof_unix_address_def abi_sizes MAX_PATH_NAME_def sizeof_sun_path_def
        bytes_of_def c_string_def)
  have sp: "sun_path (1 # 0 # bytes_of ''/tmp/sock'' @ replicate 99 0)
      = bytes_of ''/tmp/sock'' @ replicate 99 0"
    by (simp add: sun_path_def abi_sizes sizeof_sun_path_def bytes_of_def)
  have nul: "0 \<in> set (sun_path (1 # 0 # bytes_of ''/tmp/sock'' @ replicate 99 0))"
    unfolding sp by simp
  have short: "unix_address_out [] (1 # 0 # bytes_of ''/tmp/sock'' @ replicate 99 0)
     = Inr (bytes_of ''unix:/tmp/sock'')"
    using unix_address_out_terminated [OF nul, of "[]"]
    unfolding sp by (simp add: c_string_def bytes_of_def)
  from built full over built' short show ?thesis by blast
qed

section \<open>C10: indexing the bytes of an IPv6 address\<close>

text \<open>
  C10. For an \<^verbatim>\<open>inet6_address\<close> \<open>a\<close> and an index \<open>i\<close> with \<open>0 \<le> i < 16\<close>, \<open>a[i]\<close> is the
  \<open>i\<close>-th byte of \<open>a.address()\<close> (the byte at offset \<open>8 + i\<close> of the object), also for
  the indices 8 to 15 that the documented range 0-7 leaves out; the operator checks no
  bound, and every other index reads outside the 16-byte array, which the model reports
  as \<open>None\<close>.
\<close>

theorem inet6_index_address:
  assumes "length this = sizeof_inet6_address"
  shows "inet6_index this i =
           (if 0 \<le> i \<and> i < 16 then Some (address this ! nat i) else None)
       \<and> (if 0 \<le> i \<and> i < 16 then address this ! nat i = this ! (8 + nat i)
           else inet6_index this i = None)"
proof -
  have len: "length (sin6_addr this) = 16"
    using assms by (simp add: sin6_addr_def sizeof_inet6_address_def abi_sizes)
  have idx: "inet6_index this i =
      (if 0 \<le> i \<and> i < 16 then Some (address this ! nat i) else None)"
    by (simp add: inet6_index_def array_read_def address_def len)
  have off: "address this ! nat i = this ! (8 + nat i)" if "0 \<le> i" "i < 16"
  proof -
    have "nat i < 16" using that by linarith
    then show ?thesis
      using assms by (simp add: address_def sin6_addr_def sizeof_inet6_address_def abi_sizes)
  qed
  from idx off show ?thesis by simp
qed

text \<open>
  An address whose sixteen bytes are 1 to 16: index 9 gives the tenth byte, the indices
  16 and \<open>-1\<close> are outside the array.
\<close>

theorem inet6_index_address_witness:
  "inet6_index (replicate 8 0 @ [1, 2, 3, 4, 5, 6, 7, 8, 9, 10, 11, 12, 13, 14, 15, 16]
                  @ replicate 4 0) 9 = Some 10
   \<and> inet6_index (replicate 8 0 @ [1, 2, 3, 4, 5, 6, 7, 8, 9, 10, 11, 12, 13, 14, 15, 16]
                  @ replicate 4 0) 16 = None
   \<and> inet6_index (replicate 8 0 @ [1, 2, 3, 4, 5, 6, 7, 8, 9, 10, 11, 12, 13, 14, 15, 16]
                  @ replicate 4 0) (- 1) = None"
  using inet6_index_address [of "replicate 8 0 @ [1, 2, 3, 4, 5, 6, 7, 8, 9, 10, 11, 12, 13, 14, 15, 16]
                  @ replicate 4 0" 9]
    inet6_index_address [of "replicate 8 0 @ [1, 2, 3, 4, 5, 6, 7, 8, 9, 10, 11, 12, 13, 14, 15, 16]
                  @ replicate 4 0" 16]
    inet6_index_address [of "replicate 8 0 @ [1, 2, 3, 4, 5, 6, 7, 8, 9, 10, 11, 12, 13, 14, 15, 16]
                  @ replicate 4 0" "- 1"]
  by (simp add: sizeof_inet6_address_def abi_sizes address_def sin6_addr_def)

end
